theory Spec2Isabelle
  imports Main "HOL-Library.Word" "HOL-Library.Finite_Map" "HOL-Library.Char_ord"
    "HOL-Library.List_Lexorder"
begin

section \<open>The DNS-over-HTTPS name server: cache, freshness guard, sweeper, facade\<close>

text \<open>
  A shallow embedding of \<^verbatim>\<open>app/dns/nameserver_doh.go\<close>. The server object is a record
  that every operation takes and returns; the Go map \<^verbatim>\<open>ips\<close> is a finite map; the
  clock reading \<^verbatim>\<open>time.Now()\<close> is an argument of the operation that reads it; the
  publish/subscribe service is represented by the sequence of topics published so far.
  The read/write lock only delimits the atomic sections: every operation below is one such
  section.
\<close>

subsection \<open>Data model\<close>

text \<open>An instant of \<^verbatim>\<open>time.Time\<close>; \<^verbatim>\<open>t.Before(u)\<close> is \<open>t < u\<close>.\<close>

type_synonym time = int

text \<open>
  Modelled from the spec: \<^verbatim>\<open>net.Address\<close> (package \<^verbatim>\<open>common/net\<close>) is not part of the
  sources at hand. The spec calls the elements "resolved network addresses"; an address is
  represented by the bytes its \<^verbatim>\<open>IP()\<close> method returns, so \<^verbatim>\<open>len(ip.IP())\<close> is the
  length of the list.
\<close>

type_synonym address = "8 word list"

definition IPv6len :: nat where
  "IPv6len = 16"

text \<open>
  Modelled from the spec: the declaration of \<^verbatim>\<open>IPRecord\<close> is not part of the sources at
  hand. The file uses its fields \<^verbatim>\<open>IP\<close> and \<^verbatim>\<open>Expire\<close>; the spec's FamilyAnswer adds
  the 16-bit request sequence.
\<close>

record IPRecord =
  ReqID :: "16 word"
  IP :: "address list"
  Expire :: time

text \<open>
  The Go type \<^verbatim>\<open>record\<close>: one optional answer per address family (a nil pointer is
  \<open>None\<close>).
\<close>

record record_t =
  A :: "IPRecord option"
  AAAA :: "IPRecord option"

type_synonym store = "(string, record_t) fmap"

record IPOption =
  IPv4Enable :: bool
  IPv6Enable :: bool

text \<open>\<^verbatim>\<open>dnsmessage.Type\<close> is a 16-bit code; A is 1 and AAAA is 28.\<close>

definition TypeA :: "16 word" where
  "TypeA = 1"

definition TypeAAAA :: "16 word" where
  "TypeAAAA = 28"

text \<open>
  A pending request. \<^verbatim>\<open>msgID\<close> stands for the wire message \<^verbatim>\<open>msg\<close>, of which only the
  transaction identifier matters here; the field \<^verbatim>\<open>start\<close> feeds the elapsed time of a
  log line only and is left out.
\<close>

record dnsRequest =
  reqType :: "16 word"
  domain :: string
  msgID :: "16 word"

text \<open>
  The errors that occur: what \<^verbatim>\<open>ctx.Err()\<close> can be, the two results of the lookup that
  carry no address, the error of \<^verbatim>\<open>Cleanup\<close> ("nothing to do. stopping..."), and the three
  failures a goroutine of \<^verbatim>\<open>sendQuery\<close> can meet. The log lines are those of
  \<^verbatim>\<open>sendQuery\<close> and its goroutines.
\<close>

datatype ctxError = Canceled | DeadlineExceeded

datatype error =
    errRecordNotFound
  | ErrEmptyResponse
  | NothingToDo
  | ContextError ctxError
  | PackFailure
  | TransportFailure
  | DecodeFailure


text \<open>
  The server. Of the fields of the struct: the map, the publish service (as the topics
  published so far, the latest last), the counter, the URL and the name. The dispatcher,
  the HTTP client, the handle of the periodic task and the lock have no state that the
  operations below read.
\<close>

record DoHNameServer =
  ips :: store
  pub :: "string list"
  reqID :: "32 word"
  dohURL :: string
  name :: string

text \<open>Of a \<^verbatim>\<open>url.URL\<close> the constructor reads the host and the printed form.\<close>

record URL =
  Host :: string
  String :: string

definition baseDOHNameServer :: "URL \<Rightarrow> string \<Rightarrow> DoHNameServer" where
  "baseDOHNameServer url prefix =
     \<lparr>ips = fmempty, pub = [], reqID = 0, dohURL = String url,
      name = prefix @ ''//'' @ Host url\<rparr>"

subsection \<open>The expiry sweeper\<close>

text \<open>
  The body of the loop of \<^verbatim>\<open>Cleanup\<close> for one entry of the map: both family slots are
  cleared when expired, then the entry is deleted or written back.
\<close>

definition cleanupEntry :: "time \<Rightarrow> string \<times> record_t \<Rightarrow> store \<Rightarrow> store" where
  "cleanupEntry now e m =
     (case e of (d, rec) \<Rightarrow>
        let rec1 = (case A rec of
                      Some a \<Rightarrow> if Expire a < now then rec\<lparr>A := None\<rparr> else rec
                    | None \<Rightarrow> rec);
            rec2 = (case AAAA rec1 of
                      Some a \<Rightarrow> if Expire a < now then rec1\<lparr>AAAA := None\<rparr> else rec1
                    | None \<Rightarrow> rec1)
        in if A rec2 = None \<and> AAAA rec2 = None then fmdrop d m else fmupd d rec2 m)"

text \<open>
  \<^verbatim>\<open>Cleanup\<close>: the error "nothing to do. stopping..." on an empty map, otherwise the loop
  over the entries (Go leaves the order open; the entries are taken in key order, and each
  step touches its own key only) and \<^verbatim>\<open>nil\<close>.
\<close>

definition Cleanup :: "time \<Rightarrow> DoHNameServer \<Rightarrow> error option \<times> DoHNameServer" where
  "Cleanup now s =
     (if ips s = fmempty then (Some NothingToDo, s)
      else
        let m = fold (cleanupEntry now) (sorted_list_of_fmap (ips s)) (ips s)
        in (None, s\<lparr>ips := (if m = fmempty then fmempty else m)\<rparr>))"

subsection \<open>The freshness guard and the merge\<close>

text \<open>
  Modelled from the spec: \<^verbatim>\<open>isNewer\<close> is not part of the sources at hand. Spec, Freshness
  Guard: the candidate supersedes the current answer if there is none, or if the difference
  of the request sequences, candidate minus current, is positive as a signed 16-bit number.
\<close>

definition isNewer :: "IPRecord option \<Rightarrow> IPRecord \<Rightarrow> bool" where
  "isNewer baseRec newRec =
     (case baseRec of
        None \<Rightarrow> True
      | Some b \<Rightarrow> 0 < sint (ReqID newRec - ReqID b))"

text \<open>
  \<^verbatim>\<open>updateIP\<close>, the section under the lock. The call \<^verbatim>\<open>s.cleanup.Start()\<close> that follows
  the unlock starts the periodic sweeper, whose runs are separate calls of \<open>Cleanup\<close>.
\<close>

definition updateIP :: "DoHNameServer \<Rightarrow> dnsRequest \<Rightarrow> IPRecord \<Rightarrow> DoHNameServer" where
  "updateIP s req ipRec =
     (let rec = (case fmlookup (ips s) (domain req) of
                   Some r \<Rightarrow> r
                 | None \<Rightarrow> \<lparr>A = None, AAAA = None\<rparr>);
          (rec', updated) =
            (if reqType req = TypeA then
               (if isNewer (A rec) ipRec then (rec\<lparr>A := Some ipRec\<rparr>, True)
                else (rec, False))
             else if reqType req = TypeAAAA then
               (let addr = filter (\<lambda>ip. length ip = IPv6len) (IP ipRec);
                    ipRec' = ipRec\<lparr>IP := addr\<rparr>
                in if isNewer (AAAA rec) ipRec' then (rec\<lparr>AAAA := Some ipRec'\<rparr>, True)
                   else (rec, False))
             else (rec, False));
          ips' = (if updated then fmupd (domain req) rec' (ips s) else ips s);
          pub' = (if reqType req = TypeA then pub s @ [domain req @ ''4'']
                  else if reqType req = TypeAAAA then pub s @ [domain req @ ''6'']
                  else pub s)
      in s\<lparr>ips := ips', pub := pub'\<rparr>)"

subsection \<open>Request identifiers\<close>

text \<open>
  \<^verbatim>\<open>newReqID\<close>: the 32-bit counter of the server is incremented (wrapping) and the new
  value is truncated to 16 bits.
\<close>

definition newReqID :: "DoHNameServer \<Rightarrow> 16 word \<times> DoHNameServer" where
  "newReqID s = (ucast (reqID s + 1), s\<lparr>reqID := reqID s + 1\<rparr>)"

subsection \<open>The cache lookup\<close>

text \<open>
  Modelled from the spec: the method \<^verbatim>\<open>getIPs\<close> of \<^verbatim>\<open>IPRecord\<close> is not part of the
  sources at hand. Spec, Design Notes: the family slot may be absent and the method
  tolerates that, an absent answer yields no addresses and no error; Record Store: a family
  that has data contributes its addresses.
\<close>

definition getIPs :: "IPRecord option \<Rightarrow> address list \<times> error option" where
  "getIPs r = (case r of None \<Rightarrow> ([], None) | Some a \<Rightarrow> (IP a, None))"

text \<open>
  Modelled from the spec: \<^verbatim>\<open>toNetIP\<close> is not part of the sources at hand. Spec, Testable
  Properties: a hit with data contains the addresses of the requested families; with an
  address represented by its bytes the conversion returns the list as it is.
\<close>

definition toNetIP :: "address list \<Rightarrow> error + address list" where
  "toNetIP addrs = Inr addrs"

definition findIPsForDomain :: "DoHNameServer \<Rightarrow> string \<Rightarrow> IPOption \<Rightarrow> error + address list" where
  "findIPsForDomain s d option =
     (case fmlookup (ips s) d of
        None \<Rightarrow> Inl errRecordNotFound
      | Some rec \<Rightarrow>
          let (ips4, err4) = (if IPv4Enable option then getIPs (A rec) else ([], None));
              (ip6, err6) = (if IPv6Enable option then getIPs (AAAA rec) else ([], None));
              ips' = (if IPv6Enable option then ips4 @ ip6 else ips4)
          in if length ips' > 0 then toNetIP ips'
             else case err4 of
               Some e \<Rightarrow> Inl e
             | None \<Rightarrow>
                 (case err6 of
                    Some e \<Rightarrow> Inl e
                  | None \<Rightarrow>
                      if (IPv4Enable option \<and> A rec \<noteq> None)
                         \<or> (IPv6Enable option \<and> AAAA rec \<noteq> None)
                      then Inl ErrEmptyResponse
                      else Inl errRecordNotFound))"

text \<open>
  The lookup as the spec words it: the cached answers of the requested families, IPv4
  first; Miss when there is none, Hit-empty when they hold no address, otherwise the
  concatenation of their addresses.
\<close>

definition requestedAnswers :: "DoHNameServer \<Rightarrow> string \<Rightarrow> IPOption \<Rightarrow> IPRecord list" where
  "requestedAnswers s d option =
     (case fmlookup (ips s) d of
        None \<Rightarrow> []
      | Some rec \<Rightarrow>
          (if IPv4Enable option then (case A rec of Some a \<Rightarrow> [a] | None \<Rightarrow> []) else [])
          @ (if IPv6Enable option then (case AAAA rec of Some a \<Rightarrow> [a] | None \<Rightarrow> []) else []))"

definition lookup_spec :: "DoHNameServer \<Rightarrow> string \<Rightarrow> IPOption \<Rightarrow> error + address list" where
  "lookup_spec s d option =
     (let answers = requestedAnswers s d option;
          addrs = concat (map IP answers)
      in if answers = [] then Inl errRecordNotFound
         else if addrs = [] then Inl ErrEmptyResponse
         else Inr addrs)"

subsection \<open>The query orchestrator\<close>





subsection \<open>The resolution facade\<close>







subsection \<open>Auxiliary notions for the statements\<close>

text \<open>An answer slot is expired at a time when it is filled and its expiry lies before it.\<close>

definition expired :: "time \<Rightarrow> IPRecord option \<Rightarrow> bool" where
  "expired now x = (case x of Some a \<Rightarrow> Expire a < now | None \<Rightarrow> False)"

text \<open>
  What one step of the sweeper's loop leaves of a record: the record without its expired
  slots, or nothing when no slot remains.
\<close>

definition swept :: "time \<Rightarrow> record_t \<Rightarrow> record_t option" where
  "swept now rec =
     (let r = \<lparr>A = (if expired now (A rec) then None else A rec),
               AAAA = (if expired now (AAAA rec) then None else AAAA rec)\<rparr>
      in if A r = None \<and> AAAA r = None then None else Some r)"

text \<open>No answer in the store is expired at the given time.\<close>

definition liveAt :: "time \<Rightarrow> store \<Rightarrow> bool" where
  "liveAt now m = fmpred (\<lambda>d rec. \<not> expired now (A rec) \<and> \<not> expired now (AAAA rec)) m"

section \<open>Properties\<close>

subsection \<open>Request identifiers\<close>

lemma mod_succ_32_16:
  "(x + 1) mod 4294967296 mod 65536 = (x mod 4294967296 + 1) mod (65536::int)"
proof -
  have d: "(65536::int) dvd 4294967296" by simp
  have "(x + 1) mod 4294967296 mod 65536 = (x + 1) mod (65536::int)"
    using d by (rule mod_mod_cancel)
  also have "\<dots> = (x mod 65536 + 1) mod 65536" by (simp add: mod_simps)
  also have "x mod 65536 = x mod 4294967296 mod 65536"
    using d by (rule mod_mod_cancel [symmetric])
  also have "(x mod 4294967296 mod 65536 + 1) mod 65536 = (x mod 4294967296 + 1) mod 65536"
    by (simp add: mod_simps)
  finally show ?thesis .
qed

lemma ucast_succ: "ucast (x + 1 :: 32 word) = (ucast x + 1 :: 16 word)"
  by transfer (simp add: take_bit_eq_mod mod_succ_32_16)

text \<open>
  C9, as amended. Each call of \<open>newReqID\<close> on a server returns the identifier of the
  previous call on that same server plus one, modulo \<open>2 ^ 16\<close>: the identifier is the low
  16 bits of the server's own counter after the increment, and two calls in a row return
  consecutive 16-bit values. The sequence belongs to the server object, not to the process.
\<close>

theorem newReqID_successive:
  "fst (newReqID s) = ucast (reqID s) + 1
   \<and> fst (newReqID (snd (newReqID s))) = fst (newReqID s) + 1
   \<and> unat (fst (newReqID (snd (newReqID s)))) = (unat (fst (newReqID s)) + 1) mod 2 ^ 16"
proof -
  have a: "fst (newReqID t) = ucast (reqID t) + 1" for t
    by (simp add: newReqID_def ucast_succ)
  have r: "reqID (snd (newReqID s)) = reqID s + 1"
    by (simp add: newReqID_def)
  have b: "fst (newReqID (snd (newReqID s))) = fst (newReqID s) + 1"
    unfolding a r ucast_succ by (rule refl)
  have c: "unat (fst (newReqID s) + 1) = (unat (fst (newReqID s)) + 1) mod 2 ^ 16"
    by (simp add: unat_word_ariths)
  from a b c show ?thesis by simp
qed

text \<open>At the wrap: the counter holds \<open>65535\<close>, the next two identifiers are \<open>0\<close> and \<open>1\<close>.\<close>

theorem newReqID_successive_witness:
  "fst (newReqID \<lparr>ips = fmempty, pub = [], reqID = 65535,
          dohURL = ''https://dns.google/dns-query'', name = ''DOH//dns.google''\<rparr>) = 0
   \<and> fst (newReqID (snd (newReqID
        \<lparr>ips = fmempty, pub = [], reqID = 65535,
          dohURL = ''https://dns.google/dns-query'', name = ''DOH//dns.google''\<rparr>))) = 1"
  using newReqID_successive [of "\<lparr>ips = fmempty, pub = [], reqID = 65535,
          dohURL = ''https://dns.google/dns-query'', name = ''DOH//dns.google''\<rparr>"]
  by simp

text \<open>
  C9 as stated fails: the identifiers are not one sequence for the whole process. Two
  servers of one process, each fresh from \<open>baseDOHNameServer\<close>, both hand out \<open>1\<close> on
  their first call, so the later of the two calls does not return the previous value plus
  one.
\<close>

theorem newReqID_process_wide_counterexample:
  "fst (newReqID (baseDOHNameServer
          \<lparr>Host = ''dns.google'', String = ''https://dns.google/dns-query''\<rparr> ''DOH'')) = 1
   \<and> fst (newReqID (baseDOHNameServer
          \<lparr>Host = ''1.1.1.1'', String = ''https://1.1.1.1/dns-query''\<rparr> ''DOH'')) = 1"
  by (simp add: newReqID_def baseDOHNameServer_def)

subsection \<open>The merge\<close>

text \<open>
  C10. Every call of \<open>updateIP\<close> for a request of type A publishes the topic made of the
  domain and "4", and for a request of type AAAA the topic made of the domain and "6",
  whatever the freshness guard decides: the topic is appended to the published ones also
  when the candidate is rejected and the store stays as it was.
\<close>

theorem updateIP_publishes:
  "(reqType req = TypeA \<longrightarrow> pub (updateIP s req ipRec) = pub s @ [domain req @ ''4''])
   \<and> (reqType req = TypeAAAA \<longrightarrow> pub (updateIP s req ipRec) = pub s @ [domain req @ ''6''])"
  by (simp add: updateIP_def Let_def TypeA_def TypeAAAA_def split: prod.splits)

text \<open>
  A stale reply: sequence 5 is cached for \<open>example.com.\<close>, a reply with sequence 3
  arrives. The store is unchanged and the topic is published all the same.
\<close>

theorem updateIP_publishes_witness:
  "reqType \<lparr>reqType = 1, domain = ''example.com.'', msgID = 3\<rparr> = TypeA
   \<and> pub (updateIP
        \<lparr>ips = fmupd ''example.com.''
                 \<lparr>A = Some \<lparr>ReqID = 5, IP = [[93, 184, 216, 34]], Expire = 300\<rparr>, AAAA = None\<rparr>
                 fmempty,
          pub = [], reqID = 5, dohURL = ''https://dns.google/dns-query'',
          name = ''DOH//dns.google''\<rparr>
        \<lparr>reqType = 1, domain = ''example.com.'', msgID = 3\<rparr>
        \<lparr>ReqID = 3, IP = [[10, 0, 0, 1]], Expire = 500\<rparr>) = [''example.com.4'']
   \<and> ips (updateIP
        \<lparr>ips = fmupd ''example.com.''
                 \<lparr>A = Some \<lparr>ReqID = 5, IP = [[93, 184, 216, 34]], Expire = 300\<rparr>, AAAA = None\<rparr>
                 fmempty,
          pub = [], reqID = 5, dohURL = ''https://dns.google/dns-query'',
          name = ''DOH//dns.google''\<rparr>
        \<lparr>reqType = 1, domain = ''example.com.'', msgID = 3\<rparr>
        \<lparr>ReqID = 3, IP = [[10, 0, 0, 1]], Expire = 500\<rparr>)
       = fmupd ''example.com.''
           \<lparr>A = Some \<lparr>ReqID = 5, IP = [[93, 184, 216, 34]], Expire = 300\<rparr>, AAAA = None\<rparr>
           fmempty"
  using updateIP_publishes [of "\<lparr>reqType = 1, domain = ''example.com.'', msgID = 3\<rparr>"
      "\<lparr>ips = fmupd ''example.com.''
                 \<lparr>A = Some \<lparr>ReqID = 5, IP = [[93, 184, 216, 34]], Expire = 300\<rparr>, AAAA = None\<rparr>
                 fmempty,
          pub = [], reqID = 5, dohURL = ''https://dns.google/dns-query'',
          name = ''DOH//dns.google''\<rparr>"
      "\<lparr>ReqID = 3, IP = [[10, 0, 0, 1]], Expire = 500\<rparr>"]
  by (simp add: TypeA_def updateIP_def isNewer_def)

text \<open>
  C2. An answer \<open>cur\<close> is cached for the domain and the family of the request, and the
  candidate's sequence minus the cached one is negative as a signed 16-bit number. Then
  \<open>updateIP\<close> leaves the whole store, and so the cached answer, as it was. The function
  has no error result: the candidate is dropped and nothing else happens to the store.
\<close>

theorem updateIP_older_rejected:
  assumes "fmlookup (ips s) (domain req) = Some rec"
    and "reqType req = TypeA \<and> A rec = Some cur \<or> reqType req = TypeAAAA \<and> AAAA rec = Some cur"
    and "sint (ReqID cand - ReqID cur) < 0"
  shows "ips (updateIP s req cand) = ips s"
  using assms
  by (auto simp add: updateIP_def Let_def isNewer_def TypeA_def TypeAAAA_def)

text \<open>
  Across the wrap: sequence 3 issued after the wrap is cached, the reply to the older
  request 65530 arrives late; \<open>65530 - 3\<close> is \<open>-9\<close> as a signed 16-bit number.
\<close>

theorem updateIP_older_rejected_witness:
  "sint (ReqID \<lparr>ReqID = 65530, IP = [[10, 0, 0, 1]], Expire = 900\<rparr>
         - ReqID \<lparr>ReqID = 3, IP = [[93, 184, 216, 34]], Expire = 300\<rparr>) < 0
   \<and> ips (updateIP
        \<lparr>ips = fmupd ''example.com.''
                 \<lparr>A = Some \<lparr>ReqID = 3, IP = [[93, 184, 216, 34]], Expire = 300\<rparr>, AAAA = None\<rparr>
                 fmempty,
          pub = [], reqID = 65539, dohURL = ''https://dns.google/dns-query'',
          name = ''DOH//dns.google''\<rparr>
        \<lparr>reqType = TypeA, domain = ''example.com.'', msgID = 65530\<rparr>
        \<lparr>ReqID = 65530, IP = [[10, 0, 0, 1]], Expire = 900\<rparr>)
       = fmupd ''example.com.''
           \<lparr>A = Some \<lparr>ReqID = 3, IP = [[93, 184, 216, 34]], Expire = 300\<rparr>, AAAA = None\<rparr>
           fmempty"
proof -
  have neg: "sint (ReqID \<lparr>ReqID = 65530, IP = [[10, 0, 0, 1]], Expire = 900\<rparr>
         - ReqID \<lparr>ReqID = 3, IP = [[93, 184, 216, 34]], Expire = 300\<rparr>) < 0"
    by simp
  show ?thesis
    using neg updateIP_older_rejected [where
        s = "\<lparr>ips = fmupd ''example.com.''
                 \<lparr>A = Some \<lparr>ReqID = 3, IP = [[93, 184, 216, 34]], Expire = 300\<rparr>, AAAA = None\<rparr>
                 fmempty,
          pub = [], reqID = 65539, dohURL = ''https://dns.google/dns-query'',
          name = ''DOH//dns.google''\<rparr>"
        and req = "\<lparr>reqType = TypeA, domain = ''example.com.'', msgID = 65530\<rparr>"
        and rec = "\<lparr>A = Some \<lparr>ReqID = 3, IP = [[93, 184, 216, 34]], Expire = 300\<rparr>, AAAA = None\<rparr>"
        and cur = "\<lparr>ReqID = 3, IP = [[93, 184, 216, 34]], Expire = 300\<rparr>"
        and cand = "\<lparr>ReqID = 65530, IP = [[10, 0, 0, 1]], Expire = 900\<rparr>"]
    by simp
qed

text \<open>
  C8. When the answer of an AAAA request is installed (the freshness guard accepts the
  candidate, which it is shown after the filter), the AAAA slot of the domain holds the
  candidate with its address list reduced to the addresses of 16 bytes, in their order:
  every address of another length is gone from the stored list.
\<close>

theorem updateIP_AAAA_filtered:
  assumes "reqType req = TypeAAAA"
    and "isNewer (case fmlookup (ips s) (domain req) of Some r \<Rightarrow> AAAA r | None \<Rightarrow> None)
           (cand\<lparr>IP := filter (\<lambda>ip. length ip = 16) (IP cand)\<rparr>)"
  shows "\<exists>rec a. fmlookup (ips (updateIP s req cand)) (domain req) = Some rec
           \<and> AAAA rec = Some a
           \<and> a = cand\<lparr>IP := filter (\<lambda>ip. length ip = 16) (IP cand)\<rparr>
           \<and> (\<forall>ip \<in> set (IP a). length ip = 16)"
  using assms
  by (auto simp add: updateIP_def Let_def TypeA_def TypeAAAA_def IPv6len_def split: option.splits)

text \<open>
  A cold store and a decoded AAAA answer with a 4-byte address (a mapped IPv4 address
  shortened by the decoder) before a 16-byte one: only the latter is stored.
\<close>

theorem updateIP_AAAA_filtered_witness:
  "reqType \<lparr>reqType = 28, domain = ''example.com.'', msgID = 7\<rparr> = TypeAAAA
   \<and> isNewer None \<lparr>ReqID = 7,
          IP = [[32, 1, 13, 184, 0, 0, 0, 0, 0, 0, 0, 0, 0, 0, 0, 1]], Expire = 300\<rparr>
   \<and> (\<exists>rec a. fmlookup (ips (updateIP (baseDOHNameServer
             \<lparr>Host = ''dns.google'', String = ''https://dns.google/dns-query''\<rparr> ''DOH'')
           \<lparr>reqType = 28, domain = ''example.com.'', msgID = 7\<rparr>
           \<lparr>ReqID = 7,
            IP = [[10, 0, 0, 1], [32, 1, 13, 184, 0, 0, 0, 0, 0, 0, 0, 0, 0, 0, 0, 1]],
            Expire = 300\<rparr>)) ''example.com.'' = Some rec
         \<and> AAAA rec = Some a
         \<and> IP a = [[32, 1, 13, 184, 0, 0, 0, 0, 0, 0, 0, 0, 0, 0, 0, 1]])"
proof -
  have t: "reqType \<lparr>reqType = 28, domain = ''example.com.'', msgID = 7\<rparr> = TypeAAAA"
    by (simp add: TypeAAAA_def)
  have n: "isNewer None \<lparr>ReqID = 7,
          IP = [[32, 1, 13, 184, 0, 0, 0, 0, 0, 0, 0, 0, 0, 0, 0, 1]], Expire = 300\<rparr>"
    by (simp add: isNewer_def)
  show ?thesis
    using t n updateIP_AAAA_filtered [where
        s = "baseDOHNameServer
             \<lparr>Host = ''dns.google'', String = ''https://dns.google/dns-query''\<rparr> ''DOH''"
        and req = "\<lparr>reqType = 28, domain = ''example.com.'', msgID = 7\<rparr>"
        and cand = "\<lparr>ReqID = 7,
            IP = [[10, 0, 0, 1], [32, 1, 13, 184, 0, 0, 0, 0, 0, 0, 0, 0, 0, 0, 0, 1]],
            Expire = 300\<rparr>"]
    by (auto simp add: baseDOHNameServer_def)
qed

subsection \<open>The cache lookup\<close>

text \<open>
  C1. \<open>findIPsForDomain\<close> computes the lookup of the spec: Miss (the record-not-found
  error) when no requested family has a cached answer for the domain, Hit-empty (the
  empty-response error) when some requested family has a cached answer and the requested
  families hold no address, and otherwise exactly the addresses of the cached answers of
  the requested families, IPv4 before IPv6.
\<close>

theorem findIPsForDomain_trichotomy:
  "findIPsForDomain s d option = lookup_spec s d option"
proof (cases "fmlookup (ips s) d")
  case None
  then show ?thesis
    by (simp add: findIPsForDomain_def lookup_spec_def requestedAnswers_def)
next
  case (Some rec)
  then show ?thesis
    by (cases "A rec"; cases "AAAA rec"; cases "IPv4Enable option"; cases "IPv6Enable option")
       (simp_all add: findIPsForDomain_def lookup_spec_def requestedAnswers_def getIPs_def
          toNetIP_def Let_def)
qed

text \<open>
  Both families requested, an empty IPv4 answer cached and no IPv6 answer: Hit-empty. With
  an IPv6 answer of one address beside it: that address. IPv6 alone requested of a record
  with an IPv4 answer only: Miss.
\<close>

theorem findIPsForDomain_trichotomy_witness:
  "findIPsForDomain
     \<lparr>ips = fmupd ''example.com.''
              \<lparr>A = Some \<lparr>ReqID = 1, IP = [], Expire = 300\<rparr>, AAAA = None\<rparr> fmempty,
       pub = [], reqID = 1, dohURL = ''https://dns.google/dns-query'',
       name = ''DOH//dns.google''\<rparr>
     ''example.com.'' \<lparr>IPv4Enable = True, IPv6Enable = True\<rparr> = Inl ErrEmptyResponse
   \<and> findIPsForDomain
     \<lparr>ips = fmupd ''example.com.''
              \<lparr>A = Some \<lparr>ReqID = 1, IP = [], Expire = 300\<rparr>,
                 AAAA = Some \<lparr>ReqID = 2,
                   IP = [[32, 1, 13, 184, 0, 0, 0, 0, 0, 0, 0, 0, 0, 0, 0, 1]],
                   Expire = 300\<rparr>\<rparr> fmempty,
       pub = [], reqID = 2, dohURL = ''https://dns.google/dns-query'',
       name = ''DOH//dns.google''\<rparr>
     ''example.com.'' \<lparr>IPv4Enable = True, IPv6Enable = True\<rparr>
       = Inr [[32, 1, 13, 184, 0, 0, 0, 0, 0, 0, 0, 0, 0, 0, 0, 1]]
   \<and> findIPsForDomain
     \<lparr>ips = fmupd ''example.com.''
              \<lparr>A = Some \<lparr>ReqID = 1, IP = [[93, 184, 216, 34]], Expire = 300\<rparr>,
                 AAAA = None\<rparr> fmempty,
       pub = [], reqID = 1, dohURL = ''https://dns.google/dns-query'',
       name = ''DOH//dns.google''\<rparr>
     ''example.com.'' \<lparr>IPv4Enable = False, IPv6Enable = True\<rparr> = Inl errRecordNotFound"
  by (simp add: findIPsForDomain_trichotomy lookup_spec_def requestedAnswers_def)

subsection \<open>The expiry sweeper\<close>

lemma cleanupEntry_lookup:
  "fmlookup (cleanupEntry now (d, rec) m) x = (if x = d then swept now rec else fmlookup m x)"
  by (cases rec; cases "A rec"; cases "AAAA rec")
     (auto simp add: cleanupEntry_def swept_def expired_def Let_def)

lemma fold_cleanupEntry_lookup:
  "distinct (map fst es) \<Longrightarrow>
   fmlookup (fold (cleanupEntry now) es m) x =
     (case map_of es x of Some rec \<Rightarrow> swept now rec | None \<Rightarrow> fmlookup m x)"
proof (induction es arbitrary: m)
  case Nil
  then show ?case by simp
next
  case (Cons e es)
  obtain d rec where e: "e = (d, rec)" by (cases e)
  from Cons.prems e have nd: "map_of es d = None" and dist: "distinct (map fst es)"
    by (auto simp add: map_of_eq_None_iff)
  show ?case
    using Cons.IH [OF dist, of "cleanupEntry now (d, rec) m"] nd
    by (simp add: e cleanupEntry_lookup split: option.splits)
qed

lemma distinct_sorted_list_of_fmap: "distinct (map fst (sorted_list_of_fmap m))"
proof -
  have "distinct (sorted_list_of_fset (fmdom m))"
    by (simp add: sorted_list_of_fset.rep_eq)
  then show ?thesis
    by (simp add: sorted_list_of_fmap_def comp_def)
qed

text \<open>The loop as a whole: every entry is replaced by what the sweep leaves of it.\<close>

lemma Cleanup_lookup:
  "fmlookup (ips (snd (Cleanup now s))) x = Option.bind (fmlookup (ips s) x) (swept now)"
  by (simp add: Cleanup_def Let_def fold_cleanupEntry_lookup distinct_sorted_list_of_fmap
      split: option.splits)

lemma Cleanup_fst:
  "fst (Cleanup now s) = (if ips s = fmempty then Some NothingToDo else None)"
  by (simp add: Cleanup_def Let_def)

lemma swept_Some:
  "swept now rec = Some r \<Longrightarrow>
     \<not> expired now (A r) \<and> \<not> expired now (AAAA r) \<and> (A r \<noteq> None \<or> AAAA r \<noteq> None)"
  by (auto simp add: swept_def Let_def expired_def split: if_splits option.splits)

lemma swept_live:
  "\<not> expired now (A r) \<Longrightarrow> \<not> expired now (AAAA r) \<Longrightarrow> A r \<noteq> None \<or> AAAA r \<noteq> None \<Longrightarrow>
   swept now r = Some r"
  by (cases r) (auto simp add: swept_def Let_def)

lemma Cleanup_liveAt: "liveAt now (ips (snd (Cleanup now s)))"
  unfolding liveAt_def
proof (rule fmpredI)
  fix d rec assume "fmlookup (ips (snd (Cleanup now s))) d = Some rec"
  then obtain r0 where "swept now r0 = Some rec"
    by (auto simp add: Cleanup_lookup bind_eq_Some_conv)
  from swept_Some [OF this] show "\<not> expired now (A rec) \<and> \<not> expired now (AAAA rec)" by simp
qed

text \<open>
  C7. After a run of \<open>Cleanup\<close> at time \<open>now\<close>, every domain still in the store has a
  family answer whose expiry is not before \<open>now\<close>; indeed none of its answers has an
  expiry before \<open>now\<close>.
\<close>

theorem Cleanup_keeps_live_only:
  assumes "fmlookup (ips (snd (Cleanup now s))) d = Some rec"
  shows "(\<exists>a. (A rec = Some a \<or> AAAA rec = Some a) \<and> \<not> Expire a < now)
         \<and> (\<forall>a. A rec = Some a \<or> AAAA rec = Some a \<longrightarrow> \<not> Expire a < now)"
proof -
  from assms obtain r0 where "swept now r0 = Some rec"
    by (auto simp add: Cleanup_lookup bind_eq_Some_conv)
  from swept_Some [OF this] show ?thesis
    by (auto simp add: expired_def split: option.splits)
qed

text \<open>
  A sweep at time 100 of two domains: \<open>a.example.\<close> loses its IPv4 answer (expiry 50) and
  stays with its IPv6 answer (expiry 300); \<open>b.example.\<close>, whose only answer expired at 10,
  is deleted.
\<close>

theorem Cleanup_keeps_live_only_witness:
  "fmlookup (ips (snd (Cleanup 100
       \<lparr>ips = fmupd ''a.example.''
                \<lparr>A = Some \<lparr>ReqID = 1, IP = [[10, 0, 0, 1]], Expire = 50\<rparr>,
                   AAAA = Some \<lparr>ReqID = 2, IP = [], Expire = 300\<rparr>\<rparr>
              (fmupd ''b.example.''
                \<lparr>A = Some \<lparr>ReqID = 3, IP = [[10, 0, 0, 2]], Expire = 10\<rparr>, AAAA = None\<rparr>
                fmempty),
         pub = [], reqID = 3, dohURL = ''https://dns.google/dns-query'',
         name = ''DOH//dns.google''\<rparr>))) ''a.example.''
     = Some \<lparr>A = None, AAAA = Some \<lparr>ReqID = 2, IP = [], Expire = 300\<rparr>\<rparr>
   \<and> fmlookup (ips (snd (Cleanup 100
       \<lparr>ips = fmupd ''a.example.''
                \<lparr>A = Some \<lparr>ReqID = 1, IP = [[10, 0, 0, 1]], Expire = 50\<rparr>,
                   AAAA = Some \<lparr>ReqID = 2, IP = [], Expire = 300\<rparr>\<rparr>
              (fmupd ''b.example.''
                \<lparr>A = Some \<lparr>ReqID = 3, IP = [[10, 0, 0, 2]], Expire = 10\<rparr>, AAAA = None\<rparr>
                fmempty),
         pub = [], reqID = 3, dohURL = ''https://dns.google/dns-query'',
         name = ''DOH//dns.google''\<rparr>))) ''b.example.'' = None
   \<and> (\<exists>a. (A \<lparr>A = None, AAAA = Some \<lparr>ReqID = 2, IP = [], Expire = 300\<rparr>\<rparr> = Some a
            \<or> AAAA \<lparr>A = None, AAAA = Some \<lparr>ReqID = 2, IP = [], Expire = 300\<rparr>\<rparr> = Some a)
          \<and> \<not> Expire a < 100)"
proof -
  let ?s = "\<lparr>ips = fmupd ''a.example.''
                \<lparr>A = Some \<lparr>ReqID = 1, IP = [[10, 0, 0, 1]], Expire = 50\<rparr>,
                   AAAA = Some \<lparr>ReqID = 2, IP = [], Expire = 300\<rparr>\<rparr>
              (fmupd ''b.example.''
                \<lparr>A = Some \<lparr>ReqID = 3, IP = [[10, 0, 0, 2]], Expire = 10\<rparr>, AAAA = None\<rparr>
                fmempty),
         pub = [], reqID = 3, dohURL = ''https://dns.google/dns-query'',
         name = ''DOH//dns.google''\<rparr>"
  have a: "fmlookup (ips (snd (Cleanup 100 ?s))) ''a.example.''
             = Some \<lparr>A = None, AAAA = Some \<lparr>ReqID = 2, IP = [], Expire = 300\<rparr>\<rparr>"
    by (simp add: Cleanup_lookup swept_def expired_def)
  have b: "fmlookup (ips (snd (Cleanup 100 ?s))) ''b.example.'' = None"
    by (simp add: Cleanup_lookup swept_def expired_def)
  from a b Cleanup_keeps_live_only [OF a] show ?thesis by simp
qed

text \<open>
  C6, as amended. Two runs of \<open>Cleanup\<close> with nothing in between, the second at a time
  by which no answer left by the first has expired (the time of the first run is such a
  time): the second run leaves the store as the first left it. The second run returns the
  "nothing to do" error exactly when the first run left the store empty, and \<open>nil\<close>
  otherwise.
\<close>

theorem Cleanup_twice:
  assumes "liveAt now2 (ips (snd (Cleanup now1 s)))"
  shows "ips (snd (Cleanup now2 (snd (Cleanup now1 s)))) = ips (snd (Cleanup now1 s))
         \<and> (fst (Cleanup now2 (snd (Cleanup now1 s))) = Some NothingToDo
              \<longleftrightarrow> ips (snd (Cleanup now1 s)) = fmempty)"
proof -
  let ?s1 = "snd (Cleanup now1 s)"
  have "fmlookup (ips (snd (Cleanup now2 ?s1))) x = fmlookup (ips ?s1) x" for x
  proof (cases "fmlookup (ips ?s1) x")
    case None
    then show ?thesis by (simp add: Cleanup_lookup [of now2])
  next
    case (Some r)
    then obtain r0 where "swept now1 r0 = Some r"
      by (auto simp add: Cleanup_lookup [of now1 s] bind_eq_Some_conv)
    from swept_Some [OF this] have ne: "A r \<noteq> None \<or> AAAA r \<noteq> None" by simp
    from assms Some have "\<not> expired now2 (A r) \<and> \<not> expired now2 (AAAA r)"
      by (auto simp add: liveAt_def)
    with ne have "swept now2 r = Some r" by (simp add: swept_live)
    with Some show ?thesis by (simp add: Cleanup_lookup [of now2])
  qed
  then have "ips (snd (Cleanup now2 ?s1)) = ips ?s1" by (rule fmap_ext)
  then show ?thesis by (simp add: Cleanup_fst)
qed

text \<open>
  Two sweeps at time 100 of a store whose only answer expired at 10: the first empties the
  store, the second finds it empty, leaves it so and returns the "nothing to do" error.
\<close>

theorem Cleanup_twice_witness:
  "liveAt 100 (ips (snd (Cleanup 100
       \<lparr>ips = fmupd ''b.example.''
                \<lparr>A = Some \<lparr>ReqID = 3, IP = [[10, 0, 0, 2]], Expire = 10\<rparr>, AAAA = None\<rparr>
                fmempty,
         pub = [], reqID = 3, dohURL = ''https://dns.google/dns-query'',
         name = ''DOH//dns.google''\<rparr>)))
   \<and> ips (snd (Cleanup 100 (snd (Cleanup 100
       \<lparr>ips = fmupd ''b.example.''
                \<lparr>A = Some \<lparr>ReqID = 3, IP = [[10, 0, 0, 2]], Expire = 10\<rparr>, AAAA = None\<rparr>
                fmempty,
         pub = [], reqID = 3, dohURL = ''https://dns.google/dns-query'',
         name = ''DOH//dns.google''\<rparr>)))) = fmempty
   \<and> fst (Cleanup 100 (snd (Cleanup 100
       \<lparr>ips = fmupd ''b.example.''
                \<lparr>A = Some \<lparr>ReqID = 3, IP = [[10, 0, 0, 2]], Expire = 10\<rparr>, AAAA = None\<rparr>
                fmempty,
         pub = [], reqID = 3, dohURL = ''https://dns.google/dns-query'',
         name = ''DOH//dns.google''\<rparr>))) = Some NothingToDo"
proof -
  let ?s = "\<lparr>ips = fmupd ''b.example.''
                \<lparr>A = Some \<lparr>ReqID = 3, IP = [[10, 0, 0, 2]], Expire = 10\<rparr>, AAAA = None\<rparr>
                fmempty,
         pub = [], reqID = 3, dohURL = ''https://dns.google/dns-query'',
         name = ''DOH//dns.google''\<rparr>"
  have "fmlookup (ips (snd (Cleanup 100 ?s))) x = fmlookup fmempty x" for x
    by (simp add: Cleanup_lookup swept_def expired_def)
  then have e: "ips (snd (Cleanup 100 ?s)) = fmempty" by (rule fmap_ext)
  have l: "liveAt 100 (ips (snd (Cleanup 100 ?s)))"
    by (simp add: e liveAt_def)
  from l e Cleanup_twice [OF l] show ?thesis by simp
qed

text \<open>
  C6 as stated fails in both parts. The store holds one answer for \<open>example.com.\<close> that
  expires at 300. After a sweep at time 100 the store is not empty, and a second sweep at
  the same time returns \<open>nil\<close>, not the "nothing to do" error, although it had nothing to
  clean. A second sweep at time 400 instead removes the answer: the store differs from
  what the first sweep left, with no merge in between.
\<close>

theorem Cleanup_twice_counterexample:
  "fst (Cleanup 100 (snd (Cleanup 100
       \<lparr>ips = fmupd ''example.com.''
                \<lparr>A = Some \<lparr>ReqID = 1, IP = [[93, 184, 216, 34]], Expire = 300\<rparr>,
                   AAAA = None\<rparr> fmempty,
         pub = [], reqID = 1, dohURL = ''https://dns.google/dns-query'',
         name = ''DOH//dns.google''\<rparr>))) = None
   \<and> fmlookup (ips (snd (Cleanup 100
       \<lparr>ips = fmupd ''example.com.''
                \<lparr>A = Some \<lparr>ReqID = 1, IP = [[93, 184, 216, 34]], Expire = 300\<rparr>,
                   AAAA = None\<rparr> fmempty,
         pub = [], reqID = 1, dohURL = ''https://dns.google/dns-query'',
         name = ''DOH//dns.google''\<rparr>))) ''example.com.''
       = Some \<lparr>A = Some \<lparr>ReqID = 1, IP = [[93, 184, 216, 34]], Expire = 300\<rparr>, AAAA = None\<rparr>
   \<and> fmlookup (ips (snd (Cleanup 400 (snd (Cleanup 100
       \<lparr>ips = fmupd ''example.com.''
                \<lparr>A = Some \<lparr>ReqID = 1, IP = [[93, 184, 216, 34]], Expire = 300\<rparr>,
                   AAAA = None\<rparr> fmempty,
         pub = [], reqID = 1, dohURL = ''https://dns.google/dns-query'',
         name = ''DOH//dns.google''\<rparr>))))) ''example.com.'' = None"
proof -
  let ?s = "\<lparr>ips = fmupd ''example.com.''
                \<lparr>A = Some \<lparr>ReqID = 1, IP = [[93, 184, 216, 34]], Expire = 300\<rparr>,
                   AAAA = None\<rparr> fmempty,
         pub = [], reqID = 1, dohURL = ''https://dns.google/dns-query'',
         name = ''DOH//dns.google''\<rparr>"
  have a: "fmlookup (ips (snd (Cleanup 100 ?s))) ''example.com.''
       = Some \<lparr>A = Some \<lparr>ReqID = 1, IP = [[93, 184, 216, 34]], Expire = 300\<rparr>, AAAA = None\<rparr>"
    by (simp add: Cleanup_lookup swept_def expired_def)
  then have "ips (snd (Cleanup 100 ?s)) \<noteq> fmempty" by auto
  then have b: "fst (Cleanup 100 (snd (Cleanup 100 ?s))) = None"
    by (simp add: Cleanup_fst)
  have c: "fmlookup (ips (snd (Cleanup 400 (snd (Cleanup 100 ?s))))) ''example.com.'' = None"
    by (simp add: Cleanup_lookup [of 400] a swept_def expired_def)
  from a b c show ?thesis by simp
qed

subsection \<open>The resolution facade\<close>





text \<open>
  The guard of \<open>sendQuery\<close> compares with the prefix "DOH//". The name of a server
  for local resolving starts with "DOHL//", so there the guard never fires.
\<close>

lemma local_server_never_self:
  "name (baseDOHNameServer url ''DOHL'') @ ''.'' \<noteq> ''DOH//'' @ d"
  by (simp add: baseDOHNameServer_def)




end
